theory Spec2Isabelle
  imports Complex_Main "HOL-Library.Sublist"
begin

section \<open>JavaScript values as the handlers see them\<close>

text \<open>
  The request body is whatever \<^verbatim>\<open>bodyParser.json()\<close> left in \<^verbatim>\<open>req.body\<close>: a parsed
  JSON value, or \<^verbatim>\<open>undefined\<close> when nothing was parsed. Strings are byte lists (UTF-8),
  numbers are the finite rationals a JSON number denotes, an object is an association
  list read with \<open>map_of\<close>.
\<close>

datatype jsval =
    JUndefined
  | JNull
  | JBool bool
  | JNum rat
  | JStr string
  | JArr "jsval list"
  | JObj "(string \<times> jsval) list"

datatype js_error = TypeError

text \<open>JavaScript's ToBoolean, as used by \<^verbatim>\<open>!x\<close>.\<close>

fun truthy :: "jsval \<Rightarrow> bool" where
  "truthy JUndefined = False"
| "truthy JNull = False"
| "truthy (JBool b) = b"
| "truthy (JNum n) = (n \<noteq> 0)"
| "truthy (JStr s) = (s \<noteq> [])"
| "truthy (JArr xs) = True"
| "truthy (JObj kvs) = True"

text \<open>JavaScript's \<^verbatim>\<open>typeof\<close>.\<close>

fun typeof :: "jsval \<Rightarrow> string" where
  "typeof JUndefined = ''undefined''"
| "typeof JNull = ''object''"
| "typeof (JBool b) = ''boolean''"
| "typeof (JNum n) = ''number''"
| "typeof (JStr s) = ''string''"
| "typeof (JArr xs) = ''object''"
| "typeof (JObj kvs) = ''object''"

text \<open>
  Reading a property, \<^verbatim>\<open>v.k\<close> or \<^verbatim>\<open>const { k } = v\<close>, for a name \<open>k\<close> that no prototype
  defines (as \<^verbatim>\<open>categories\<close> and \<^verbatim>\<open>isOpen\<close>): \<^verbatim>\<open>undefined\<close> and \<^verbatim>\<open>null\<close> raise a
  TypeError, an object gives its own property or \<^verbatim>\<open>undefined\<close>, every other value
  gives \<^verbatim>\<open>undefined\<close>.
\<close>

fun get_prop :: "jsval \<Rightarrow> string \<Rightarrow> js_error + jsval" where
  "get_prop JUndefined k = Inl TypeError"
| "get_prop JNull k = Inl TypeError"
| "get_prop (JObj kvs) k = Inr (case map_of kvs k of None \<Rightarrow> JUndefined | Some v \<Rightarrow> v)"
| "get_prop v k = Inr JUndefined"

section \<open>HTTP responses\<close>

datatype body = Text string | Json jsval

record response =
  status :: nat
  content :: body

text \<open>\<^verbatim>\<open>res.send(text)\<close>, \<^verbatim>\<open>res.json(v)\<close> and \<^verbatim>\<open>res.status(n).json(v)\<close>.\<close>

definition res_send :: "string \<Rightarrow> response" where
  "res_send t = \<lparr>status = 200, content = Text t\<rparr>"

definition res_json :: "jsval \<Rightarrow> response" where
  "res_json v = \<lparr>status = 200, content = Json v\<rparr>"

definition res_status_json :: "nat \<Rightarrow> jsval \<Rightarrow> response" where
  "res_status_json n v = \<lparr>status = n, content = Json v\<rparr>"

text \<open>The object literal \<^verbatim>\<open>{ erro: msg }\<close> of every error response.\<close>

definition erro :: "string \<Rightarrow> jsval" where
  "erro msg = JObj [(''erro'', JStr msg)]"

fun is_error_body :: "body \<Rightarrow> bool" where
  "is_error_body (Json (JObj [(k, JStr msg)])) = (k = ''erro'')"
| "is_error_body b = False"

section \<open>The document store\<close>

text \<open>
  One document lives at \<open>DOC_PATH\<close>. The state of the store is that document (or none)
  and the list of calls the server made to it, so that "the store is never invoked" is
  a statement about the state.
\<close>

definition DOC_PATH :: string where
  "DOC_PATH = ''configuracoes/menu''"

datatype store_call =
    Get string
  | Set string jsval
  | Update string "(string \<times> jsval) list"

record store =
  document :: "jsval option"
  calls :: "store_call list"

datatype store_error = StoreError

datatype firestore = Firestore

text \<open>
  Modelled from the spec: the Firestore client behind \<^verbatim>\<open>db.doc(DOC_PATH)\<close> is the
  external firebase-admin library, absent from the sources; the definitions of this
  section follow the spec's Document Store Adapter (\<open>fetch\<close>, \<open>replace\<close>, \<open>patchField\<close>).
  A dot path \<^verbatim>\<open>'a.b.c'\<close> names the nested field \<open>[a, b, c]\<close>.
\<close>

fun split_on :: "char \<Rightarrow> string \<Rightarrow> string \<Rightarrow> string list" where
  "split_on c acc [] = [rev acc]"
| "split_on c acc (x # xs) =
     (if x = c then rev acc # split_on c [] xs else split_on c (x # acc) xs)"

definition field_path :: "string \<Rightarrow> string list" where
  "field_path p = split_on (CHR ''.'') [] p"

fun put_key :: "string \<Rightarrow> jsval \<Rightarrow> (string \<times> jsval) list \<Rightarrow> (string \<times> jsval) list" where
  "put_key k v [] = [(k, v)]"
| "put_key k v ((k', v') # kvs) =
     (if k' = k then (k, v) # kvs else (k', v') # put_key k v kvs)"

text \<open>
  Modelled from the spec: \<open>patchField(dotPath, value)\<close> "updates exactly the named nested
  field, leaving all sibling fields untouched". The maps on the way to the field are
  kept with all their other entries; a missing or non-map parent becomes a map holding
  the one field.
\<close>

fun set_path :: "string list \<Rightarrow> jsval \<Rightarrow> jsval \<Rightarrow> jsval" where
  "set_path [] v d = v"
| "set_path (k # ks) v (JObj kvs) =
     JObj (put_key k (set_path ks v (case map_of kvs k of None \<Rightarrow> JObj [] | Some c \<Rightarrow> c)) kvs)"
| "set_path (k # ks) v d = JObj [(k, set_path ks v (JObj []))]"

fun patchFields :: "(string \<times> jsval) list \<Rightarrow> jsval \<Rightarrow> jsval" where
  "patchFields [] d = d"
| "patchFields ((p, v) # fs) d = patchFields fs (set_path (field_path p) v d)"

text \<open>Reading one nested field; \<open>None\<close> where there is no such field.\<close>

fun lookup_path :: "string list \<Rightarrow> jsval \<Rightarrow> jsval option" where
  "lookup_path [] d = Some d"
| "lookup_path (k # ks) (JObj kvs) =
     (case map_of kvs k of None \<Rightarrow> None | Some c \<Rightarrow> lookup_path ks c)"
| "lookup_path (k # ks) d = None"

text \<open>
  Modelled from the spec: \<^verbatim>\<open>db.doc(path).get()\<close>, the spec's \<open>fetch()\<close>, "returns the full
  document contents, or an absent marker if no document exists at the path; fails with a
  store-error kind on connectivity/permission problems". The argument \<open>up\<close> says
  whether the store answers the call.
\<close>

definition doc_get :: "bool \<Rightarrow> string \<Rightarrow> store \<Rightarrow> (store_error + jsval option) \<times> store" where
  "doc_get up path s =
     (let s' = s\<lparr>calls := calls s @ [Get path]\<rparr>
      in if up then (Inr (document s), s') else (Inl StoreError, s'))"

text \<open>
  Modelled from the spec: \<^verbatim>\<open>db.doc(path).set(data)\<close>, the spec's \<open>replace(fullPayload)\<close>,
  "overwrites the entire document with fullPayload; fails with a store-error kind on
  failure; no partial application".
\<close>

definition doc_set :: "bool \<Rightarrow> string \<Rightarrow> jsval \<Rightarrow> store \<Rightarrow> (store_error + unit) \<times> store" where
  "doc_set up path v s =
     (let s' = s\<lparr>calls := calls s @ [Set path v]\<rparr>
      in if up then (Inr (), s'\<lparr>document := Some v\<rparr>) else (Inl StoreError, s'))"

text \<open>
  Modelled from the spec: \<^verbatim>\<open>db.doc(path).update({dotPath: value})\<close>, the spec's
  \<open>patchField\<close>, which "fails with a store-error kind on failure". The document is
  created only out of band or by a full replace, so an update of a document that does
  not exist is a store error and creates nothing.
\<close>

definition doc_update ::
    "bool \<Rightarrow> string \<Rightarrow> (string \<times> jsval) list \<Rightarrow> store \<Rightarrow> (store_error + unit) \<times> store" where
  "doc_update up path fs s =
     (let s' = s\<lparr>calls := calls s @ [Update path fs]\<rparr>
      in case document s of
           None \<Rightarrow> (Inl StoreError, s')
         | Some d \<Rightarrow>
             if up then (Inr (), s'\<lparr>document := Some (patchFields fs d)\<rparr>)
             else (Inl StoreError, s'))"

section \<open>The routes of server.js\<close>

text \<open>
  Every handler takes the client handle \<open>db\<close> (\<open>None\<close> is \<^verbatim>\<open>null\<close>), whether the store
  answers, the request body and the store, and returns the response it sent, or the
  exception that left it, with the store afterwards.
\<close>

type_synonym handler_result = "(js_error + response) \<times> store"

definition online_message :: string where
  "online_message =
     ''Backend Disk Marmitas est'' @ [CHR 0xC3, CHR 0xA1] @ '' Online! ''
       @ [CHR 0xF0, CHR 0x9F, CHR 0x9A, CHR 0x80]"

definition msg_no_db :: string where
  "msg_no_db = ''Base de dados n'' @ [CHR 0xC3, CHR 0xA3] @ ''o conectada.''"

definition msg_not_found :: string where
  "msg_not_found =
     ''Configura'' @ [CHR 0xC3, CHR 0xA7, CHR 0xC3, CHR 0xA3] @ ''o n''
       @ [CHR 0xC3, CHR 0xA3] @ ''o encontrada.''"

definition msg_invalid :: string where
  "msg_invalid =
     ''Dados inv'' @ [CHR 0xC3, CHR 0xA1] @ ''lidos. O objeto deve conter \"categories\".''"

definition msg_not_boolean :: string where
  "msg_not_boolean =
     ''O campo '' @ [CHR 0x27] @ ''isOpen'' @ [CHR 0x27]
       @ '' deve ser booleano (true ou false).''"

text \<open>\<^verbatim>\<open>app.get('/')\<close>\<close>

definition get_root :: "firestore option \<Rightarrow> bool \<Rightarrow> jsval \<Rightarrow> store \<Rightarrow> handler_result" where
  "get_root db up req_body s = (Inr (res_send online_message), s)"

text \<open>\<^verbatim>\<open>app.get('/api/menu')\<close>\<close>

definition get_api_menu :: "firestore option \<Rightarrow> bool \<Rightarrow> jsval \<Rightarrow> store \<Rightarrow> handler_result" where
  "get_api_menu db up req_body s =
     (case db of
        None \<Rightarrow> (Inr (res_status_json 500 (erro msg_no_db)), s)
      | Some client \<Rightarrow>
          (case doc_get up DOC_PATH s of
             (Inl e, s') \<Rightarrow> (Inr (res_status_json 500 (erro ''Erro interno no servidor.'')), s')
           | (Inr None, s') \<Rightarrow> (Inr (res_status_json 404 (erro msg_not_found)), s')
           | (Inr (Some d), s') \<Rightarrow> (Inr (res_json d), s')))"

text \<open>\<^verbatim>\<open>app.put('/api/menu')\<close>\<close>

definition put_api_menu :: "firestore option \<Rightarrow> bool \<Rightarrow> jsval \<Rightarrow> store \<Rightarrow> handler_result" where
  "put_api_menu db up req_body s =
     (case db of
        None \<Rightarrow> (Inr (res_status_json 500 (erro msg_no_db)), s)
      | Some client \<Rightarrow>
          (let novosDados = req_body in
           if \<not> truthy novosDados then (Inr (res_status_json 400 (erro msg_invalid)), s)
           else (case get_prop novosDados ''categories'' of
                   Inl e \<Rightarrow> (Inl e, s)
                 | Inr categories \<Rightarrow>
                     if \<not> truthy categories
                     then (Inr (res_status_json 400 (erro msg_invalid)), s)
                     else (case doc_set up DOC_PATH novosDados s of
                             (Inl e, s') \<Rightarrow>
                               (Inr (res_status_json 500
                                  (erro ''Erro ao gravar dados na base de dados.'')), s')
                           | (Inr u, s') \<Rightarrow>
                               (Inr (res_json
                                  (JObj [(''mensagem'', JStr ''Menu atualizado com sucesso!'')])),
                                s')))))"

text \<open>\<^verbatim>\<open>app.patch('/api/status-loja')\<close>\<close>

definition patch_api_status_loja ::
    "firestore option \<Rightarrow> bool \<Rightarrow> jsval \<Rightarrow> store \<Rightarrow> handler_result" where
  "patch_api_status_loja db up req_body s =
     (case db of
        None \<Rightarrow> (Inr (res_status_json 500 (erro msg_no_db)), s)
      | Some client \<Rightarrow>
          (case get_prop req_body ''isOpen'' of
             Inl e \<Rightarrow> (Inl e, s)
           | Inr isOpen \<Rightarrow>
               if typeof isOpen \<noteq> ''boolean''
               then (Inr (res_status_json 400 (erro msg_not_boolean)), s)
               else (case doc_update up DOC_PATH [(''settings.isOpen'', isOpen)] s of
                       (Inl e, s') \<Rightarrow>
                         (Inr (res_status_json 500 (erro ''Erro ao atualizar estado.'')), s')
                     | (Inr u, s') \<Rightarrow>
                         (Inr (res_json
                            (JObj [(''mensagem'',
                                    JStr (''Loja ''
                                      @ (if truthy isOpen then ''ABERTA'' else ''FECHADA'')
                                      @ '' com sucesso.'')),
                                   (''estado'', isOpen)])),
                          s'))))"

text \<open>The four routes registered on \<^verbatim>\<open>app\<close>.\<close>

datatype route = GET_root | GET_api_menu | PUT_api_menu | PATCH_api_status_loja

fun app :: "route \<Rightarrow> firestore option \<Rightarrow> bool \<Rightarrow> jsval \<Rightarrow> store \<Rightarrow> handler_result" where
  "app GET_root = get_root"
| "app GET_api_menu = get_api_menu"
| "app PUT_api_menu = put_api_menu"
| "app PATCH_api_status_loja = patch_api_status_loja"

section \<open>Vocabulary of the properties\<close>

text \<open>The status code a handler answered with; \<open>None\<close> when an exception left it.\<close>

definition status_of :: "handler_result \<Rightarrow> nat option" where
  "status_of h = (case fst h of Inl e \<Rightarrow> None | Inr r \<Rightarrow> Some (status r))"

fun is_boolean :: "jsval \<Rightarrow> bool" where
  "is_boolean (JBool b) = True"
| "is_boolean v = False"

text \<open>A body without a \<^verbatim>\<open>categories\<close> field: a missing body, or any value that has none.\<close>

fun lacks_categories :: "jsval \<Rightarrow> bool" where
  "lacks_categories (JObj kvs) = (map_of kvs ''categories'' = None)"
| "lacks_categories v = True"

text \<open>
  The body's \<^verbatim>\<open>isOpen\<close> is not a boolean: the field holds a value of another type, the
  field is omitted, or there is no body to read it from.
\<close>

definition isOpen_not_boolean :: "jsval \<Rightarrow> bool" where
  "isOpen_not_boolean req_body =
     (case get_prop req_body ''isOpen'' of Inl e \<Rightarrow> True | Inr v \<Rightarrow> \<not> is_boolean v)"

section \<open>Auxiliary facts\<close>

lemma typeof_boolean: "(typeof v = ''boolean'') = is_boolean v"
  by (cases v) simp_all

lemma field_path_settings_isOpen: "field_path ''settings.isOpen'' = [''settings'', ''isOpen'']"
  by (simp add: field_path_def)

lemma map_of_put_key: "map_of (put_key k v kvs) k' = (if k' = k then Some v else map_of kvs k')"
  by (induction kvs) auto

lemma lookup_set_path_same: "lookup_path q (set_path q v d) = Some v"
proof (induction q arbitrary: d)
  case Nil
  show ?case by simp
next
  case (Cons k ks)
  show ?case by (cases d) (simp_all add: map_of_put_key Cons.IH)
qed

lemma lookup_set_path_other:
  "\<not> prefix p q \<Longrightarrow> \<not> prefix q p \<Longrightarrow> lookup_path p (set_path q v d) = lookup_path p d"
proof (induction q arbitrary: p d)
  case Nil
  then show ?case by simp
next
  case (Cons k ks)
  then obtain k' ps where p: "p = k' # ps" by (cases p) auto
  show ?case
  proof (cases "k' = k")
    case True
    with Cons.prems p have np: "\<not> prefix ps ks" "\<not> prefix ks ps" by auto
    have ih: "\<And>d. lookup_path ps (set_path ks v d) = lookup_path ps d"
      using Cons.IH [OF np] .
    have e: "lookup_path ps (JObj []) = None" using np by (cases ps) auto
    show ?thesis using True p ih e
      by (cases d) (auto simp: map_of_put_key split: option.splits)
  next
    case False
    then show ?thesis using p
      by (cases d) (auto simp: map_of_put_key split: option.splits)
  qed
qed

text \<open>
  The one way \<^verbatim>\<open>PATCH /api/status-loja\<close> answers 200: a client handle, a boolean
  \<^verbatim>\<open>isOpen\<close>, a store that answers and an existing document; then the store received
  one \<^verbatim>\<open>update\<close> call and the document has the one field rewritten.
\<close>

lemma patch_success:
  assumes "patch_api_status_loja db up req_body s = (Inr r, s')" and "status r = 200"
  shows "\<exists>client x d. db = Some client \<and> up \<and> get_prop req_body ''isOpen'' = Inr (JBool x)
           \<and> document s = Some d
           \<and> r = res_json (JObj [(''mensagem'',
                   JStr (''Loja '' @ (if x then ''ABERTA'' else ''FECHADA'') @ '' com sucesso.'')),
                 (''estado'', JBool x)])
           \<and> s' = \<lparr>document = Some (set_path [''settings'', ''isOpen''] (JBool x) d),
                   calls = calls s @ [Update DOC_PATH [(''settings.isOpen'', JBool x)]]\<rparr>"
proof (cases db)
  case None
  with assms show ?thesis
    by (auto simp: patch_api_status_loja_def res_status_json_def)
next
  case (Some client)
  show ?thesis
  proof (cases "get_prop req_body ''isOpen''")
    case (Inl e)
    with Some assms show ?thesis by (simp add: patch_api_status_loja_def)
  next
    case (Inr v)
    show ?thesis
    proof (cases v)
      case (JBool x)
      with Some Inr assms show ?thesis
        by (cases "document s"; cases up)
           (auto simp: patch_api_status_loja_def doc_update_def Let_def res_status_json_def
              res_json_def field_path_settings_isOpen)
    qed (use Some Inr assms in \<open>auto simp: patch_api_status_loja_def res_status_json_def\<close>)
  qed
qed

section \<open>Properties of the routes\<close>

text \<open>
  C8. For every request, \<^verbatim>\<open>GET /\<close> answers 200 with one fixed text, whatever the client
  handle, the state of the store and the document are; the store is left as it was,
  with no call made to it.
\<close>

theorem liveness_route_fixed:
  "app GET_root db up req_body s = (Inr \<lparr>status = 200, content = Text online_message\<rparr>, s)"
  by (simp add: get_root_def res_send_def)

text \<open>
  C4. With no client handle, each of the three database-backed routes answers 500 with
  an error body for every request, and the store is left as it was: no call reaches it.
\<close>

theorem no_client_gives_500:
  assumes "r \<noteq> GET_root"
  shows "\<exists>rsp. app r None up req_body s = (Inr rsp, s) \<and> status rsp = 500
           \<and> is_error_body (content rsp)"
  using assms
  by (cases r)
     (simp_all add: get_api_menu_def put_api_menu_def patch_api_status_loja_def
        res_status_json_def erro_def)

theorem no_client_gives_500_witness:
  "PATCH_api_status_loja \<noteq> GET_root \<and>
   (\<exists>rsp. app PATCH_api_status_loja None True (JObj [(''isOpen'', JBool True)])
             \<lparr>document = Some (JObj []), calls = []\<rparr>
           = (Inr rsp, \<lparr>document = Some (JObj []), calls = []\<rparr>)
         \<and> status rsp = 500 \<and> is_error_body (content rsp))"
  using no_client_gives_500 [of PATCH_api_status_loja True "JObj [(''isOpen'', JBool True)]"
      "\<lparr>document = Some (JObj []), calls = []\<rparr>"]
  by simp

text \<open>
  C5. \<^verbatim>\<open>GET /api/menu\<close> answers 500 with an error body when there is no client handle;
  with a handle it answers 500 when the store fails, 404 with an error body when no
  document exists at the path, and 200 with the document itself as the body when one
  exists, whatever that document holds (no \<^verbatim>\<open>categories\<close> field is asked for).
\<close>

theorem get_api_menu_outcomes:
  "get_api_menu None up req_body s = (Inr (res_status_json 500 (erro msg_no_db)), s)
   \<and> status_of (get_api_menu (Some client) False req_body s) = Some 500
   \<and> fst (get_api_menu (Some client) True req_body (s\<lparr>document := None\<rparr>))
       = Inr (res_status_json 404 (erro msg_not_found))
   \<and> fst (get_api_menu (Some client) True req_body (s\<lparr>document := Some d\<rparr>))
       = Inr \<lparr>status = 200, content = Json d\<rparr>
   \<and> is_error_body (content (res_status_json 500 (erro msg_no_db)))
   \<and> is_error_body (content (res_status_json 404 (erro msg_not_found)))"
  by (simp add: get_api_menu_def doc_get_def status_of_def res_status_json_def res_json_def
        erro_def Let_def)

text \<open>
  C2. As stated (400 for every request whose body is missing or lacks \<^verbatim>\<open>categories\<close>)
  the claim fails when no client handle is configured: the handle is tested first and
  the answer is 500.
\<close>

theorem put_validation_counterexample:
  "lacks_categories (JObj [])
   \<and> status_of (put_api_menu None True (JObj []) \<lparr>document = None, calls = []\<rparr>) = Some 500"
  by (simp add: put_api_menu_def status_of_def res_status_json_def Let_def)

text \<open>
  C2, amended. For every \<^verbatim>\<open>PUT /api/menu\<close> request whose body is missing or lacks a
  \<^verbatim>\<open>categories\<close> field, the store is never invoked and the stored document is unchanged;
  when a client handle is configured the route answers 400 with an error body.
\<close>

theorem put_rejects_missing_categories:
  assumes "lacks_categories req_body"
  shows "put_api_menu (Some client) up req_body s
           = (Inr \<lparr>status = 400, content = Json (erro msg_invalid)\<rparr>, s)
         \<and> is_error_body (Json (erro msg_invalid))
         \<and> snd (put_api_menu db up req_body s) = s"
  using assms
  by (cases req_body; cases db)
     (simp_all add: put_api_menu_def res_status_json_def erro_def Let_def)

theorem put_rejects_missing_categories_witness:
  "lacks_categories (JObj [(''settings'', JObj [])])
   \<and> put_api_menu (Some Firestore) True (JObj [(''settings'', JObj [])])
         \<lparr>document = Some (JObj [(''categories'', JArr [])]), calls = []\<rparr>
       = (Inr \<lparr>status = 400, content = Json (erro msg_invalid)\<rparr>,
          \<lparr>document = Some (JObj [(''categories'', JArr [])]), calls = []\<rparr>)"
  using put_rejects_missing_categories [of "JObj [(''settings'', JObj [])]" Firestore True
      "\<lparr>document = Some (JObj [(''categories'', JArr [])]), calls = []\<rparr>" None]
  by simp

text \<open>
  C9. As stated (400 for every request whose \<^verbatim>\<open>categories\<close> is falsy) the claim fails
  when no client handle is configured: the answer is 500.
\<close>

theorem put_falsy_categories_counterexample:
  "status_of (put_api_menu None True (JObj [(''categories'', JNull)])
      \<lparr>document = None, calls = []\<rparr>) = Some 500"
  by (simp add: put_api_menu_def status_of_def res_status_json_def Let_def)

text \<open>
  C9, amended. For every \<^verbatim>\<open>PUT /api/menu\<close> request whose body has a \<^verbatim>\<open>categories\<close> field
  with a falsy value (\<^verbatim>\<open>false\<close>, \<^verbatim>\<open>0\<close>, the empty string or \<^verbatim>\<open>null\<close>), the store is never
  invoked; when a client handle is configured the route answers 400, although the field
  is present.
\<close>

theorem put_rejects_falsy_categories:
  assumes "map_of kvs ''categories'' = Some c"
    and "c \<in> {JBool False, JNum 0, JStr '''', JNull}"
  shows "put_api_menu (Some client) up (JObj kvs) s
           = (Inr \<lparr>status = 400, content = Json (erro msg_invalid)\<rparr>, s)
         \<and> snd (put_api_menu db up (JObj kvs) s) = s"
  using assms
  by (cases db) (auto simp: put_api_menu_def res_status_json_def Let_def)

theorem put_rejects_falsy_categories_witness:
  "map_of [(''categories'', JNum 0)] ''categories'' = Some (JNum 0)
   \<and> JNum 0 \<in> {JBool False, JNum 0, JStr '''', JNull}
   \<and> put_api_menu (Some Firestore) True (JObj [(''categories'', JNum 0)])
         \<lparr>document = None, calls = []\<rparr>
       = (Inr \<lparr>status = 400, content = Json (erro msg_invalid)\<rparr>,
          \<lparr>document = None, calls = []\<rparr>)"
  using put_rejects_falsy_categories [of "[(''categories'', JNum 0)]" "JNum 0" Firestore True
      "\<lparr>document = None, calls = []\<rparr>" None]
  by simp

text \<open>
  C6. As stated (400 for every request whose \<^verbatim>\<open>isOpen\<close> is not a boolean) the claim fails
  when no client handle is configured: the answer is 500. It also fails, with a client
  handle, for a request without a body: \<^verbatim>\<open>const { isOpen } = req.body\<close> raises a TypeError
  before the type test, outside the \<^verbatim>\<open>try\<close>, and the handler sends no response.
\<close>

theorem patch_validation_counterexample:
  "get_prop (JObj [(''isOpen'', JStr ''true'')]) ''isOpen'' = Inr (JStr ''true'')
   \<and> \<not> is_boolean (JStr ''true'')
   \<and> status_of (patch_api_status_loja None True (JObj [(''isOpen'', JStr ''true'')])
        \<lparr>document = None, calls = []\<rparr>) = Some 500
   \<and> patch_api_status_loja (Some Firestore) True JUndefined \<lparr>document = None, calls = []\<rparr>
       = (Inl TypeError, \<lparr>document = None, calls = []\<rparr>)"
  by (simp add: patch_api_status_loja_def status_of_def res_status_json_def)

text \<open>
  C6, amended. For every \<^verbatim>\<open>PATCH /api/status-loja\<close> request whose body's \<^verbatim>\<open>isOpen\<close> value
  is not a boolean (a string, a number, any other value, or the field omitted) or whose
  body is missing, the store is never invoked and the stored document is unchanged,
  with or without a client handle; when a client handle is configured and the request
  has a body (\<^verbatim>\<open>req.body\<close> is neither \<^verbatim>\<open>undefined\<close> nor \<^verbatim>\<open>null\<close>), the route answers 400
  with an error body.
\<close>

theorem patch_rejects_non_boolean:
  assumes "isOpen_not_boolean req_body"
  shows "snd (patch_api_status_loja db up req_body s) = s
         \<and> (req_body \<noteq> JUndefined \<and> req_body \<noteq> JNull \<longrightarrow>
              patch_api_status_loja (Some client) up req_body s
                = (Inr \<lparr>status = 400, content = Json (erro msg_not_boolean)\<rparr>, s))
         \<and> is_error_body (Json (erro msg_not_boolean))"
proof -
  have err: "is_error_body (Json (erro msg_not_boolean))"
    by (simp add: erro_def)
  show ?thesis
  proof (cases "get_prop req_body ''isOpen''")
    case (Inl e)
    then have nobody: "req_body = JUndefined \<or> req_body = JNull"
      by (cases req_body) simp_all
    have "snd (patch_api_status_loja db up req_body s) = s"
      using Inl by (cases db) (simp_all add: patch_api_status_loja_def)
    with nobody err show ?thesis by blast
  next
    case (Inr v)
    with assms have nb: "typeof v \<noteq> ''boolean''"
      by (simp add: isOpen_not_boolean_def typeof_boolean)
    have "snd (patch_api_status_loja db up req_body s) = s"
      using Inr nb by (cases db) (simp_all add: patch_api_status_loja_def)
    moreover have "patch_api_status_loja (Some client) up req_body s
        = (Inr \<lparr>status = 400, content = Json (erro msg_not_boolean)\<rparr>, s)"
      using Inr nb by (simp add: patch_api_status_loja_def res_status_json_def)
    ultimately show ?thesis using err by (intro conjI impI) assumption+
  qed
qed

theorem patch_rejects_non_boolean_witness:
  "isOpen_not_boolean (JObj [(''isOpen'', JNum 1)])
   \<and> JObj [(''isOpen'', JNum 1)] \<noteq> JUndefined
   \<and> JObj [(''isOpen'', JNum 1)] \<noteq> JNull
   \<and> patch_api_status_loja (Some Firestore) True (JObj [(''isOpen'', JNum 1)])
         \<lparr>document = Some (JObj []), calls = []\<rparr>
       = (Inr \<lparr>status = 400, content = Json (erro msg_not_boolean)\<rparr>,
          \<lparr>document = Some (JObj []), calls = []\<rparr>)"
proof -
  have h: "isOpen_not_boolean (JObj [(''isOpen'', JNum 1)])"
    by (simp add: isOpen_not_boolean_def)
  from patch_rejects_non_boolean [OF h, of None True
      "\<lparr>document = Some (JObj []), calls = []\<rparr>" Firestore]
  have "patch_api_status_loja (Some Firestore) True (JObj [(''isOpen'', JNum 1)])
          \<lparr>document = Some (JObj []), calls = []\<rparr>
        = (Inr \<lparr>status = 400, content = Json (erro msg_not_boolean)\<rparr>,
           \<lparr>document = Some (JObj []), calls = []\<rparr>)"
    by simp
  with h show ?thesis by simp
qed

text \<open>
  C1. As stated (every body containing a \<^verbatim>\<open>categories\<close> field is stored and read back)
  the claim fails for a body whose \<^verbatim>\<open>categories\<close> is falsy: with a client handle and a
  store that answers, \<^verbatim>\<open>{"categories": 0}\<close> is refused with 400, nothing is stored, and
  the next \<^verbatim>\<open>GET /api/menu\<close> finds no document.
\<close>

theorem put_then_get_counterexample:
  "map_of [(''categories'', JNum 0)] ''categories'' = Some (JNum 0)
   \<and> put_api_menu (Some Firestore) True (JObj [(''categories'', JNum 0)])
         \<lparr>document = None, calls = []\<rparr>
       = (Inr \<lparr>status = 400, content = Json (erro msg_invalid)\<rparr>,
          \<lparr>document = None, calls = []\<rparr>)
   \<and> status_of (get_api_menu (Some Firestore) True JUndefined \<lparr>document = None, calls = []\<rparr>)
       = Some 404"
  by (simp add: put_api_menu_def get_api_menu_def doc_get_def status_of_def
        res_status_json_def Let_def)

text \<open>
  C1, amended. For every request body containing a \<^verbatim>\<open>categories\<close> field whose value is
  truthy, when a client handle is configured and the store answers, \<^verbatim>\<open>PUT /api/menu\<close>
  answers 200 with the confirmation message and the next \<^verbatim>\<open>GET /api/menu\<close> (no writer
  in between) answers 200 with exactly that body.
\<close>

theorem put_then_get_round_trip:
  assumes "map_of kvs ''categories'' = Some c" and "truthy c"
  shows "\<exists>s1. put_api_menu (Some client) True (JObj kvs) s
                 = (Inr \<lparr>status = 200,
                      content = Json (JObj [(''mensagem'', JStr ''Menu atualizado com sucesso!'')])\<rparr>,
                    s1)
              \<and> fst (get_api_menu (Some client) True req_body s1)
                 = Inr \<lparr>status = 200, content = Json (JObj kvs)\<rparr>"
  using assms
  by (simp add: put_api_menu_def get_api_menu_def doc_set_def doc_get_def res_json_def Let_def)

theorem put_then_get_round_trip_witness:
  "map_of [(''categories'', JArr [JObj [(''name'', JStr ''Combo''), (''price'', JNum 10)]])]
       ''categories''
     = Some (JArr [JObj [(''name'', JStr ''Combo''), (''price'', JNum 10)]])
   \<and> truthy (JArr [JObj [(''name'', JStr ''Combo''), (''price'', JNum 10)]])
   \<and> (\<exists>s1. put_api_menu (Some Firestore) True
               (JObj [(''categories'', JArr [JObj [(''name'', JStr ''Combo''), (''price'', JNum 10)]])])
               \<lparr>document = None, calls = []\<rparr>
             = (Inr \<lparr>status = 200,
                  content = Json (JObj [(''mensagem'', JStr ''Menu atualizado com sucesso!'')])\<rparr>,
                s1)
          \<and> fst (get_api_menu (Some Firestore) True JUndefined s1)
             = Inr \<lparr>status = 200, content = Json
                 (JObj [(''categories'', JArr [JObj [(''name'', JStr ''Combo''), (''price'', JNum 10)]])])\<rparr>)"
  using put_then_get_round_trip
    [of "[(''categories'', JArr [JObj [(''name'', JStr ''Combo''), (''price'', JNum 10)]])]"
        "JArr [JObj [(''name'', JStr ''Combo''), (''price'', JNum 10)]]"
        Firestore "\<lparr>document = None, calls = []\<rparr>" JUndefined]
  by simp

text \<open>
  C3. For every stored document and every \<^verbatim>\<open>PATCH /api/status-loja\<close> that answers 200,
  the document afterwards holds the request's boolean at \<^verbatim>\<open>settings.isOpen\<close>, and every
  field path that neither leads to \<^verbatim>\<open>settings.isOpen\<close> nor lies below it reads the same
  before and after: all other top-level fields and all other fields of \<^verbatim>\<open>settings\<close>.
\<close>

theorem patch_changes_only_isOpen:
  assumes "patch_api_status_loja db up req_body s = (Inr r, s')" and "status r = 200"
  shows "\<exists>x d d'. get_prop req_body ''isOpen'' = Inr (JBool x)
           \<and> document s = Some d \<and> document s' = Some d'
           \<and> lookup_path [''settings'', ''isOpen''] d' = Some (JBool x)
           \<and> (\<forall>p. \<not> prefix p [''settings'', ''isOpen''] \<and> \<not> prefix [''settings'', ''isOpen''] p
                 \<longrightarrow> lookup_path p d' = lookup_path p d)"
proof -
  from patch_success [OF assms] obtain x d where
    x: "get_prop req_body ''isOpen'' = Inr (JBool x)" and d: "document s = Some d"
    and s': "document s' = Some (set_path [''settings'', ''isOpen''] (JBool x) d)"
    by auto
  have same: "lookup_path [''settings'', ''isOpen''] (set_path [''settings'', ''isOpen''] (JBool x) d)
      = Some (JBool x)"
    by (rule lookup_set_path_same)
  have other: "lookup_path p (set_path [''settings'', ''isOpen''] (JBool x) d) = lookup_path p d"
    if "\<not> prefix p [''settings'', ''isOpen''] \<and> \<not> prefix [''settings'', ''isOpen''] p" for p
    using that by (intro lookup_set_path_other) simp_all
  show ?thesis
    using x d s' same other by (intro exI conjI allI impI) assumption+
qed

theorem patch_changes_only_isOpen_witness:
  "patch_api_status_loja (Some Firestore) True (JObj [(''isOpen'', JBool True)])
       \<lparr>document = Some (JObj [(''categories'', JArr []),
                                (''settings'', JObj [(''isOpen'', JBool False), (''taxa'', JNum 5)])]),
        calls = []\<rparr>
     = (Inr \<lparr>status = 200,
          content = Json (JObj [(''mensagem'', JStr ''Loja ABERTA com sucesso.''),
                                (''estado'', JBool True)])\<rparr>,
        \<lparr>document = Some (JObj [(''categories'', JArr []),
                                (''settings'', JObj [(''isOpen'', JBool True), (''taxa'', JNum 5)])]),
         calls = [Update DOC_PATH [(''settings.isOpen'', JBool True)]]\<rparr>)
   \<and> lookup_path [''settings'', ''taxa'']
         (JObj [(''categories'', JArr []),
                (''settings'', JObj [(''isOpen'', JBool True), (''taxa'', JNum 5)])])
       = Some (JNum 5)"
proof -
  let ?d = "JObj [(''categories'', JArr []),
                  (''settings'', JObj [(''isOpen'', JBool False), (''taxa'', JNum 5)])]"
  let ?d' = "JObj [(''categories'', JArr []),
                   (''settings'', JObj [(''isOpen'', JBool True), (''taxa'', JNum 5)])]"
  let ?r = "\<lparr>status = 200,
              content = Json (JObj [(''mensagem'', JStr ''Loja ABERTA com sucesso.''),
                                    (''estado'', JBool True)])\<rparr>"
  let ?s' = "\<lparr>document = Some ?d', calls = [Update DOC_PATH [(''settings.isOpen'', JBool True)]]\<rparr>"
  have run: "patch_api_status_loja (Some Firestore) True (JObj [(''isOpen'', JBool True)])
               \<lparr>document = Some ?d, calls = []\<rparr> = (Inr ?r, ?s')"
    by (simp add: patch_api_status_loja_def doc_update_def Let_def res_json_def
          field_path_settings_isOpen)
  have ok: "status ?r = 200" by simp
  from patch_changes_only_isOpen [OF run ok] obtain d d' where
    d: "document \<lparr>document = Some ?d, calls = []\<rparr> = Some d"
    and d': "document ?s' = Some d'"
    and frame: "\<forall>p. \<not> prefix p [''settings'', ''isOpen''] \<and> \<not> prefix [''settings'', ''isOpen''] p
                  \<longrightarrow> lookup_path p d' = lookup_path p d"
    by blast
  have "\<not> prefix [''settings'', ''taxa''] [''settings'', ''isOpen'']
        \<and> \<not> prefix [''settings'', ''isOpen''] [''settings'', ''taxa'']"
    by simp
  with frame have "lookup_path [''settings'', ''taxa''] d' = lookup_path [''settings'', ''taxa''] d"
    by blast
  moreover from d have "d = ?d" by simp
  moreover from d' have "d' = ?d'" by simp
  ultimately have "lookup_path [''settings'', ''taxa''] ?d' = Some (JNum 5)" by simp
  with run show ?thesis by (intro conjI)
qed

text \<open>
  C7. For a \<^verbatim>\<open>PATCH /api/status-loja\<close> with boolean \<^verbatim>\<open>isOpen\<close>, the route answers 200
  exactly when a client handle is configured, the store answers and the document exists;
  the body then has \<^verbatim>\<open>estado\<close> equal to the request's \<^verbatim>\<open>isOpen\<close> and \<^verbatim>\<open>mensagem\<close>
  "Loja ABERTA com sucesso." for true, "Loja FECHADA com sucesso." for false.
\<close>

theorem patch_success_response:
  assumes "get_prop req_body ''isOpen'' = Inr (JBool x)"
  shows "(status_of (patch_api_status_loja db up req_body s) = Some 200
            \<longleftrightarrow> db \<noteq> None \<and> up \<and> document s \<noteq> None)
         \<and> (status_of (patch_api_status_loja db up req_body s) = Some 200
            \<longrightarrow> fst (patch_api_status_loja db up req_body s)
                = Inr \<lparr>status = 200,
                    content = Json (JObj
                      [(''mensagem'', JStr (if x then ''Loja ABERTA com sucesso.''
                                           else ''Loja FECHADA com sucesso.'')),
                       (''estado'', JBool x)])\<rparr>)"
  using assms
  by (cases db; cases up; cases "document s")
     (simp_all add: patch_api_status_loja_def doc_update_def Let_def status_of_def
        res_status_json_def res_json_def)

theorem patch_success_response_witness:
  "get_prop (JObj [(''isOpen'', JBool False)]) ''isOpen'' = Inr (JBool False)
   \<and> fst (patch_api_status_loja (Some Firestore) True (JObj [(''isOpen'', JBool False)])
            \<lparr>document = Some (JObj [(''categories'', JArr [])]), calls = []\<rparr>)
       = Inr \<lparr>status = 200,
           content = Json (JObj [(''mensagem'', JStr ''Loja FECHADA com sucesso.''),
                                 (''estado'', JBool False)])\<rparr>"
  using patch_success_response [of "JObj [(''isOpen'', JBool False)]" False "Some Firestore" True
      "\<lparr>document = Some (JObj [(''categories'', JArr [])]), calls = []\<rparr>"]
  by simp

text \<open>
  C10. For every \<^verbatim>\<open>PATCH /api/status-loja\<close> that answers 200, the one call made to the
  store is an \<^verbatim>\<open>update\<close> of the single field \<^verbatim>\<open>settings.isOpen\<close> with the request's boolean,
  and every other field of the body is ignored: any body with the same \<^verbatim>\<open>isOpen\<close> gives
  the same response and the same store.
\<close>

theorem patch_writes_single_field:
  assumes "patch_api_status_loja db up req_body s = (Inr r, s')" and "status r = 200"
  shows "\<exists>x. get_prop req_body ''isOpen'' = Inr (JBool x)
           \<and> calls s' = calls s @ [Update DOC_PATH [(''settings.isOpen'', JBool x)]]
           \<and> (\<forall>other. get_prop other ''isOpen'' = Inr (JBool x)
                 \<longrightarrow> patch_api_status_loja db up other s = (Inr r, s'))"
proof -
  from patch_success [OF assms] obtain x where
    x: "get_prop req_body ''isOpen'' = Inr (JBool x)"
    and c: "calls s' = calls s @ [Update DOC_PATH [(''settings.isOpen'', JBool x)]]"
    by auto
  have "patch_api_status_loja db up other s = patch_api_status_loja db up req_body s"
    if "get_prop other ''isOpen'' = Inr (JBool x)" for other
    using that x by (cases db) (simp_all add: patch_api_status_loja_def)
  then have "\<forall>other. get_prop other ''isOpen'' = Inr (JBool x)
      \<longrightarrow> patch_api_status_loja db up other s = (Inr r, s')"
    using assms(1) by simp
  with x c show ?thesis by (intro exI conjI) assumption+
qed

theorem patch_writes_single_field_witness:
  "patch_api_status_loja (Some Firestore) True (JObj [(''isOpen'', JBool True)])
       \<lparr>document = Some (JObj []), calls = []\<rparr>
     = (Inr \<lparr>status = 200,
          content = Json (JObj [(''mensagem'', JStr ''Loja ABERTA com sucesso.''),
                                (''estado'', JBool True)])\<rparr>,
        \<lparr>document = Some (JObj [(''settings'', JObj [(''isOpen'', JBool True)])]),
         calls = [Update DOC_PATH [(''settings.isOpen'', JBool True)]]\<rparr>)
   \<and> patch_api_status_loja (Some Firestore) True
         (JObj [(''categories'', JArr []), (''isOpen'', JBool True), (''admin'', JBool True)])
         \<lparr>document = Some (JObj []), calls = []\<rparr>
     = (Inr \<lparr>status = 200,
          content = Json (JObj [(''mensagem'', JStr ''Loja ABERTA com sucesso.''),
                                (''estado'', JBool True)])\<rparr>,
        \<lparr>document = Some (JObj [(''settings'', JObj [(''isOpen'', JBool True)])]),
         calls = [Update DOC_PATH [(''settings.isOpen'', JBool True)]]\<rparr>)"
proof -
  let ?r = "\<lparr>status = 200,
              content = Json (JObj [(''mensagem'', JStr ''Loja ABERTA com sucesso.''),
                                    (''estado'', JBool True)])\<rparr>"
  let ?s' = "\<lparr>document = Some (JObj [(''settings'', JObj [(''isOpen'', JBool True)])]),
               calls = [Update DOC_PATH [(''settings.isOpen'', JBool True)]]\<rparr>"
  let ?other = "JObj [(''categories'', JArr []), (''isOpen'', JBool True), (''admin'', JBool True)]"
  have run: "patch_api_status_loja (Some Firestore) True (JObj [(''isOpen'', JBool True)])
               \<lparr>document = Some (JObj []), calls = []\<rparr> = (Inr ?r, ?s')"
    by (simp add: patch_api_status_loja_def doc_update_def Let_def res_json_def
          field_path_settings_isOpen)
  have ok: "status ?r = 200" by simp
  from patch_writes_single_field [OF run ok] obtain x where
    x: "get_prop (JObj [(''isOpen'', JBool True)]) ''isOpen'' = Inr (JBool x)"
    and indep: "\<forall>other. get_prop other ''isOpen'' = Inr (JBool x)
                  \<longrightarrow> patch_api_status_loja (Some Firestore) True other
                        \<lparr>document = Some (JObj []), calls = []\<rparr> = (Inr ?r, ?s')"
    by blast
  from x have "x = True" by simp
  then have "get_prop ?other ''isOpen'' = Inr (JBool x)" by simp
  with indep have "patch_api_status_loja (Some Firestore) True ?other
                     \<lparr>document = Some (JObj []), calls = []\<rparr> = (Inr ?r, ?s')"
    by blast
  with run show ?thesis by (intro conjI)
qed

end
